theory Spec2Isabelle
  imports Main
begin

section \<open>The account controller of pefcl\<close>

text \<open>
  The theory embeds \<^verbatim>\<open>src/server/services/account/account.controller.ts\<close>: the class
  \<^verbatim>\<open>AccountController\<close>, whose methods are asynchronous handlers. A handler receives a
  request \<^verbatim>\<open>req\<close> and a responder \<^verbatim>\<open>res\<close>, awaits calls of three injected services
  and answers through \<^verbatim>\<open>res\<close>.

  The services themselves (\<^verbatim>\<open>AuthService\<close>, \<^verbatim>\<open>AccountService\<close>,
  \<^verbatim>\<open>ExternalAccountService\<close>) are not part of the source under study, so the controller
  is modelled for arbitrary services: every service method is a parameter, a function on
  the services' state that resolves with a value or rejects with an error.
\<close>

subsection \<open>Data\<close>

text \<open>\<^verbatim>\<open>AccountRole\<close>, the roles the controller names.\<close>

datatype account_role = Owner | Admin | Contributor

text \<open>
  What a \<^verbatim>\<open>catch (err)\<close> block of the controller reads of a thrown value: \<^verbatim>\<open>err.message\<close>
  and \<^verbatim>\<open>err.name\<close>. Thrown values are taken to be error objects, on which both reads
  succeed.
\<close>

record js_error =
  message :: string
  name :: string

text \<open>
  \<^verbatim>\<open>Request<T>\<close> carries the caller in \<^verbatim>\<open>source\<close> and the payload in \<^verbatim>\<open>data\<close>.
  \<^verbatim>\<open>OnlineUser\<close> has a \<^verbatim>\<open>source\<close> too, which is all the controller reads of it.
  The numbers \<^verbatim>\<open>source\<close> and \<^verbatim>\<open>accountId\<close> are identifiers, modelled as integers.
\<close>

record has_source =
  source :: int

record 'd request = has_source +
  data :: 'd

text \<open>
  Payloads. The controller reads one field of a payload, \<^verbatim>\<open>accountId\<close>, and passes the
  request on whole. TypeScript types are structural, so a payload is a record scheme:
  the fields the source declares or reads, and a rest of type \<open>'p\<close> that the controller
  never looks at. \<^verbatim>\<open>{ accountId: number }\<close>, \<^verbatim>\<open>RenameAccountInput\<close>,
  \<^verbatim>\<open>AddToSharedAccountInput\<close> and \<^verbatim>\<open>RemoveFromSharedAccountInput\<close> are passed to
  \<^verbatim>\<open>isAuthorizedAccount(accountId: number, ...)\<close> unguarded, so their \<^verbatim>\<open>accountId\<close> is a
  number. \<^verbatim>\<open>ATMInput\<close> is guarded by \<^verbatim>\<open>accountId &&\<close>: its \<^verbatim>\<open>accountId\<close> may be
  undefined, here \<open>None\<close>; the field is \<open>atm_accountId\<close>, to keep it apart from the
  number. In \<^verbatim>\<open>{ amount: number; message: string }\<close> the field \<^verbatim>\<open>message\<close> is
  \<open>balance_message\<close>, \<open>message\<close> being the field of a thrown error.
\<close>

record account_id_input =
  accountId :: int

record atm_input =
  atm_accountId :: "int option"

record balance_input =
  amount :: int
  balance_message :: string

text \<open>The empty object literal \<^verbatim>\<open>{}\<close> sent as \<^verbatim>\<open>data\<close> by the mutating handlers.\<close>

datatype empty_object = EmptyObject

text \<open>
  The argument of \<^verbatim>\<open>res\<close>: \<^verbatim>\<open>{ status: 'ok', data }\<close> or
  \<^verbatim>\<open>{ status: 'error', errorMsg, errorName? }\<close>.
\<close>

datatype 'r response = Ok 'r | Error string "string option"

datatype response_status = StatusOk | StatusError

fun status :: "'r response \<Rightarrow> response_status" where
  "status (Ok d) = StatusOk"
| "status (Error m n) = StatusError"

subsection \<open>Services\<close>

text \<open>
  An awaited service call runs on the services' state \<open>'s\<close> (the database and whatever
  else they hold): it resolves with a value (\<open>Inr\<close>) or rejects with an error (\<open>Inl\<close>),
  and leaves a new state.
\<close>

type_synonym ('s, 'a) promise = "'s \<Rightarrow> (js_error + 'a) \<times> 's"

text \<open>
  \<^verbatim>\<open>AuthService\<close>. The controller discards what \<^verbatim>\<open>isAuthorizedAccount\<close> resolves with.
\<close>

record 's auth_service =
  isAuthorizedAccount :: "int \<Rightarrow> int \<Rightarrow> account_role list \<Rightarrow> ('s, unit) promise"

text \<open>
  \<^verbatim>\<open>AccountService\<close>. \<open>'v\<close> stands for the values the services resolve with and the
  controller forwards untouched (\<^verbatim>\<open>Account\<close>, \<^verbatim>\<open>Account[]\<close>, \<^verbatim>\<open>SharedAccountUser[]\<close>).
  The methods \<^verbatim>\<open>createAccount\<close> and \<^verbatim>\<open>getTotalBankBalance\<close> of the service carry the
  prefix \<open>service_\<close>, the controller has methods of the same names.
\<close>

record ('s, 'p, 'v) account_service =
  handleGetMyAccounts :: "int \<Rightarrow> ('s, 'v) promise"
  service_getTotalBankBalance :: "int \<Rightarrow> ('s, int) promise"
  handleCreateAccount :: "'p request \<Rightarrow> ('s, 'v) promise"
  handleDeleteAccount :: "'p account_id_input_scheme request \<Rightarrow> ('s, unit) promise"
  service_createAccount :: "'p request \<Rightarrow> ('s, 'v) promise"
  handleDepositMoney :: "'p atm_input_scheme request \<Rightarrow> ('s, unit) promise"
  handleWithdrawMoney :: "'p atm_input_scheme request \<Rightarrow> ('s, unit) promise"
  handleSetDefaultAccount :: "'p account_id_input_scheme request \<Rightarrow> ('s, unit) promise"
  handleRenameAccount :: "'p account_id_input_scheme request \<Rightarrow> ('s, unit) promise"
  addUserToShared :: "'p account_id_input_scheme request \<Rightarrow> ('s, unit) promise"
  removeUserFromShared :: "'p account_id_input_scheme request \<Rightarrow> ('s, unit) promise"
  getUsersFromShared :: "'p account_id_input_scheme request \<Rightarrow> ('s, 'v) promise"
  addMoney :: "'p balance_input_scheme request \<Rightarrow> ('s, unit) promise"
  removeMoney :: "'p balance_input_scheme request \<Rightarrow> ('s, unit) promise"
  createInitialAccount :: "int \<Rightarrow> ('s, 'v) promise"

text \<open>\<^verbatim>\<open>ExternalAccountService\<close>; its \<^verbatim>\<open>getAccounts\<close> is \<open>external_getAccounts\<close> here.\<close>

record ('s, 'p, 'v) external_account_service =
  handleAddAccount :: "'p request \<Rightarrow> ('s, unit) promise"
  external_getAccounts :: "unit request \<Rightarrow> ('s, 'v) promise"

text \<open>
  The controller: the three fields its constructor sets, \<^verbatim>\<open>_auth\<close>,
  \<^verbatim>\<open>_accountService\<close> and \<^verbatim>\<open>_externalAccountService\<close>, without the underscore.
\<close>

record ('s, 'p, 'v) account_controller =
  auth :: "'s auth_service"
  accountService :: "('s, 'p, 'v) account_service"
  externalAccountService :: "('s, 'p, 'v) external_account_service"

subsection \<open>What a handler does\<close>

text \<open>
  Everything a handler does to the outside is recorded in order: the service calls it
  makes, with their arguments, the responses it sends through \<^verbatim>\<open>res\<close>, and what it
  writes with \<^verbatim>\<open>console.error\<close>.
\<close>

datatype 'p call =
    IsAuthorizedAccount int int "account_role list"
  | HandleGetMyAccounts int
  | GetTotalBankBalance int
  | HandleCreateAccount "'p request"
  | HandleDeleteAccount "'p account_id_input_scheme request"
  | CreateAccount "'p request"
  | HandleDepositMoney "'p atm_input_scheme request"
  | HandleWithdrawMoney "'p atm_input_scheme request"
  | HandleSetDefaultAccount "'p account_id_input_scheme request"
  | HandleRenameAccount "'p account_id_input_scheme request"
  | AddUserToShared "'p account_id_input_scheme request"
  | RemoveUserFromShared "'p account_id_input_scheme request"
  | GetUsersFromShared "'p account_id_input_scheme request"
  | HandleAddAccount "'p request"
  | GetAccounts "unit request"
  | AddMoney "'p balance_input_scheme request"
  | RemoveMoney "'p balance_input_scheme request"
  | CreateInitialAccount int

datatype ('p, 'r) event =
    Called "'p call"
  | Replied "'r response"
  | ConsoleError js_error

text \<open>
  A call that is started and not awaited stays behind as a task: it runs on the state
  later, and nobody reads whether it resolved or rejected. The service methods are
  asynchronous: calling one yields a promise and does not throw. The model defers the
  whole call; the caller, which reads nothing of the store, cannot tell the difference
  from a callee that runs up to its first \<^verbatim>\<open>await\<close> at once.
\<close>

type_synonym 's task = "'s \<Rightarrow> 's"

definition detach :: "('s, 'a) promise \<Rightarrow> 's task" where
  "detach p s = snd (p s)"

record ('s, 'p, 'r) world =
  store :: 's
  trace :: "('p, 'r) event list"
  pending :: "'s task list"

text \<open>
  The body of an \<^verbatim>\<open>async\<close> function: from a world to a new world, completing normally
  with a value or abruptly with a thrown error. For a whole handler this is the
  promise it returns, resolved or rejected.
\<close>

type_synonym ('w, 'a) async = "'w \<Rightarrow> (js_error + 'a) \<times> 'w"

definition done_with :: "'a \<Rightarrow> ('w, 'a) async" where
  "done_with x w = (Inr x, w)"

text \<open>\<^verbatim>\<open>const x = await m; k x\<close>: a rejected \<^verbatim>\<open>m\<close> throws and skips the rest.\<close>

definition and_then :: "('w, 'a) async \<Rightarrow> ('a \<Rightarrow> ('w, 'b) async) \<Rightarrow> ('w, 'b) async" where
  "and_then m k w = (case m w of (Inl err, w') \<Rightarrow> (Inl err, w') | (Inr x, w') \<Rightarrow> k x w')"

text \<open>\<^verbatim>\<open>try { m } catch (err) { h err }\<close>.\<close>

definition try_catch :: "('w, 'a) async \<Rightarrow> (js_error \<Rightarrow> ('w, 'a) async) \<Rightarrow> ('w, 'a) async" where
  "try_catch m h w = (case m w of (Inl err, w') \<Rightarrow> h err w' | (Inr x, w') \<Rightarrow> (Inr x, w'))"

text \<open>\<^verbatim>\<open>await service.method(args)\<close>: the call is recorded, then runs on the store.\<close>

definition await_call :: "'p call \<Rightarrow> ('s, 'a) promise \<Rightarrow> (('s, 'p, 'r) world, 'a) async" where
  "await_call c p w =
     (case p (store w) of (r, s') \<Rightarrow> (r, w\<lparr>store := s', trace := trace w @ [Called c]\<rparr>))"

text \<open>\<^verbatim>\<open>service.method(args)\<close> without \<^verbatim>\<open>await\<close>: recorded and left pending.\<close>

definition start_call :: "'p call \<Rightarrow> ('s, 'a) promise \<Rightarrow> (('s, 'p, 'r) world, unit) async" where
  "start_call c p w =
     (Inr (), w\<lparr>trace := trace w @ [Called c], pending := pending w @ [detach p]\<rparr>)"

text \<open>
  \<^verbatim>\<open>res(r)\<close> and \<^verbatim>\<open>console.error(err)\<close>: the responder and the console are
  given from outside, they record and return.
\<close>

definition res :: "'r response \<Rightarrow> (('s, 'p, 'r) world, unit) async" where
  "res r w = (Inr (), w\<lparr>trace := trace w @ [Replied r]\<rparr>)"

definition console_error :: "js_error \<Rightarrow> (('s, 'p, 'r) world, unit) async" where
  "console_error err w = (Inr (), w\<lparr>trace := trace w @ [ConsoleError err]\<rparr>)"

text \<open>The event loop running the pending tasks, oldest first.\<close>

definition settle :: "('s, 'p, 'r) world \<Rightarrow> ('s, 'p, 'r) world" where
  "settle w = w\<lparr>store := fold (\<lambda>t s. t s) (pending w) (store w), pending := []\<rparr>"

text \<open>What has been sent through \<^verbatim>\<open>res\<close>, and which services have been called.\<close>

fun replies :: "('p, 'r) event list \<Rightarrow> 'r response list" where
  "replies [] = []"
| "replies (Replied r # es) = r # replies es"
| "replies (e # es) = replies es"

fun calls :: "('p, 'r) event list \<Rightarrow> 'p call list" where
  "calls [] = []"
| "calls (Called c # es) = c # calls es"
| "calls (e # es) = calls es"

subsection \<open>The service calls of the controller\<close>

definition auth_isAuthorizedAccount ::
  "('s, 'p, 'v) account_controller \<Rightarrow> int \<Rightarrow> int \<Rightarrow> account_role list \<Rightarrow>
   (('s, 'p, 'r) world, unit) async" where
  "auth_isAuthorizedAccount c a src roles =
     await_call (IsAuthorizedAccount a src roles) (isAuthorizedAccount (auth c) a src roles)"

subsection \<open>The handlers\<close>

definition getAccounts ::
  "('s, 'p, 'v) account_controller \<Rightarrow> unit request \<Rightarrow> (('s, 'p, 'v) world, unit) async" where
  "getAccounts c req =
     and_then (await_call (HandleGetMyAccounts (source req))
                 (handleGetMyAccounts (accountService c) (source req)))
       (\<lambda>accounts. res (Ok accounts))"

definition getTotalBankBalance ::
  "('s, 'p, 'v) account_controller \<Rightarrow> unit request \<Rightarrow> (('s, 'p, int) world, unit) async" where
  "getTotalBankBalance c req =
     and_then (await_call (GetTotalBankBalance (source req))
                 (service_getTotalBankBalance (accountService c) (source req)))
       (\<lambda>balance. res (Ok balance))"

definition createAccount ::
  "('s, 'p, 'v) account_controller \<Rightarrow> 'p request \<Rightarrow> (('s, 'p, 'v) world, unit) async" where
  "createAccount c req =
     try_catch
       (and_then (await_call (HandleCreateAccount req)
                    (handleCreateAccount (accountService c) req))
          (\<lambda>account. res (Ok account)))
       (\<lambda>err. res (Error (message err) None))"

definition deleteAccount ::
  "('s, 'p, 'v) account_controller \<Rightarrow> 'p account_id_input_scheme request \<Rightarrow>
   (('s, 'p, empty_object) world, unit) async" where
  "deleteAccount c req =
     try_catch
       (and_then (auth_isAuthorizedAccount c (accountId (data req)) (source req) [Owner])
          (\<lambda>_. and_then (await_call (HandleDeleteAccount req)
                           (handleDeleteAccount (accountService c) req))
          (\<lambda>_. res (Ok EmptyObject))))
       (\<lambda>err. res (Error (message err) None))"

definition exportCreateAccount ::
  "('s, 'p, 'v) account_controller \<Rightarrow> 'p request \<Rightarrow> (('s, 'p, 'v) world, unit) async" where
  "exportCreateAccount c req =
     try_catch
       (and_then (await_call (CreateAccount req)
                    (service_createAccount (accountService c) req))
          (\<lambda>account. res (Ok account)))
       (\<lambda>err. res (Error (message err) None))"

definition depositMoney ::
  "('s, 'p, 'v) account_controller \<Rightarrow> 'p atm_input_scheme request \<Rightarrow>
   (('s, 'p, empty_object) world, unit) async" where
  "depositMoney c req =
     try_catch
       (and_then (await_call (HandleDepositMoney req)
                    (handleDepositMoney (accountService c) req))
          (\<lambda>_. res (Ok EmptyObject)))
       (\<lambda>err. res (Error (message err) None))"

text \<open>
  \<^verbatim>\<open>accountId && (await this._auth.isAuthorizedAccount(accountId, ...))\<close>: the check runs
  when \<^verbatim>\<open>accountId\<close> is truthy, that is a number other than 0, and is skipped when it
  is undefined or 0.
\<close>

definition withdrawMoney ::
  "('s, 'p, 'v) account_controller \<Rightarrow> 'p atm_input_scheme request \<Rightarrow>
   (('s, 'p, empty_object) world, unit) async" where
  "withdrawMoney c req =
     (let accountId = atm_accountId (data req) in
      try_catch
        (and_then (case accountId of
                     None \<Rightarrow> done_with ()
                   | Some a \<Rightarrow> if a = 0 then done_with ()
                              else auth_isAuthorizedAccount c a (source req) [Admin])
           (\<lambda>_. and_then (await_call (HandleWithdrawMoney req)
                            (handleWithdrawMoney (accountService c) req))
           (\<lambda>_. res (Ok EmptyObject))))
        (\<lambda>err. and_then (console_error err)
           (\<lambda>_. res (Error (message err) None))))"

definition setDefaultAccount ::
  "('s, 'p, 'v) account_controller \<Rightarrow> 'p account_id_input_scheme request \<Rightarrow>
   (('s, 'p, empty_object) world, unit) async" where
  "setDefaultAccount c req =
     try_catch
       (and_then (auth_isAuthorizedAccount c (accountId (data req)) (source req) [Admin])
          (\<lambda>_. and_then (await_call (HandleSetDefaultAccount req)
                           (handleSetDefaultAccount (accountService c) req))
          (\<lambda>_. res (Ok EmptyObject))))
       (\<lambda>err. res (Error (message err) None))"

definition renameAccount ::
  "('s, 'p, 'v) account_controller \<Rightarrow> 'p account_id_input_scheme request \<Rightarrow>
   (('s, 'p, empty_object) world, unit) async" where
  "renameAccount c req =
     try_catch
       (and_then (auth_isAuthorizedAccount c (accountId (data req)) (source req) [Admin])
          (\<lambda>_. and_then (await_call (HandleRenameAccount req)
                           (handleRenameAccount (accountService c) req))
          (\<lambda>_. res (Ok EmptyObject))))
       (\<lambda>err. res (Error (message err) None))"

definition addSharedAccountUser ::
  "('s, 'p, 'v) account_controller \<Rightarrow> 'p account_id_input_scheme request \<Rightarrow>
   (('s, 'p, empty_object) world, unit) async" where
  "addSharedAccountUser c req =
     try_catch
       (and_then (auth_isAuthorizedAccount c (accountId (data req)) (source req) [Admin])
          (\<lambda>_. and_then (await_call (AddUserToShared req)
                           (addUserToShared (accountService c) req))
          (\<lambda>_. res (Ok EmptyObject))))
       (\<lambda>err. res (Error (message err) None))"

definition removeSharedAccountUser ::
  "('s, 'p, 'v) account_controller \<Rightarrow> 'p account_id_input_scheme request \<Rightarrow>
   (('s, 'p, empty_object) world, unit) async" where
  "removeSharedAccountUser c req =
     try_catch
       (and_then (auth_isAuthorizedAccount c (accountId (data req)) (source req) [Admin])
          (\<lambda>_. and_then (await_call (RemoveUserFromShared req)
                           (removeUserFromShared (accountService c) req))
          (\<lambda>_. res (Ok EmptyObject))))
       (\<lambda>err. res (Error (message err) None))"

definition getUsersFromSharedAccount ::
  "('s, 'p, 'v) account_controller \<Rightarrow> 'p account_id_input_scheme request \<Rightarrow>
   (('s, 'p, 'v) world, unit) async" where
  "getUsersFromSharedAccount c req =
     try_catch
       (and_then (auth_isAuthorizedAccount c (accountId (data req)) (source req)
                    [Admin, Contributor])
          (\<lambda>_. and_then (await_call (GetUsersFromShared req)
                           (getUsersFromShared (accountService c) req))
          (\<lambda>data. res (Ok data))))
       (\<lambda>err. res (Error (message err) None))"

definition addExternalAccount ::
  "('s, 'p, 'v) account_controller \<Rightarrow> 'p request \<Rightarrow>
   (('s, 'p, empty_object) world, unit) async" where
  "addExternalAccount c req =
     try_catch
       (and_then (await_call (HandleAddAccount req)
                    (handleAddAccount (externalAccountService c) req))
          (\<lambda>_. res (Ok EmptyObject)))
       (\<lambda>err. res (Error (message err) None))"

definition getExternalAccounts ::
  "('s, 'p, 'v) account_controller \<Rightarrow> unit request \<Rightarrow> (('s, 'p, 'v) world, unit) async" where
  "getExternalAccounts c req =
     try_catch
       (and_then (await_call (GetAccounts req)
                    (external_getAccounts (externalAccountService c) req))
          (\<lambda>data. res (Ok data)))
       (\<lambda>err. res (Error (message err) (Some (name err))))"

definition addBankBalance ::
  "('s, 'p, 'v) account_controller \<Rightarrow> 'p balance_input_scheme request \<Rightarrow>
   (('s, 'p, empty_object) world, unit) async" where
  "addBankBalance c req =
     try_catch
       (and_then (await_call (AddMoney req) (addMoney (accountService c) req))
          (\<lambda>_. res (Ok EmptyObject)))
       (\<lambda>err. res (Error (message err) None))"

definition addBankBalanceByIdentifier ::
  "('s, 'p, 'v) account_controller \<Rightarrow> 'p balance_input_scheme request \<Rightarrow>
   (('s, 'p, empty_object) world, unit) async" where
  "addBankBalanceByIdentifier c req =
     try_catch
       (and_then (await_call (AddMoney req) (addMoney (accountService c) req))
          (\<lambda>_. res (Ok EmptyObject)))
       (\<lambda>err. res (Error (message err) None))"

definition removeBankBalance ::
  "('s, 'p, 'v) account_controller \<Rightarrow> 'p balance_input_scheme request \<Rightarrow>
   (('s, 'p, empty_object) world, unit) async" where
  "removeBankBalance c req =
     try_catch
       (and_then (await_call (RemoveMoney req) (removeMoney (accountService c) req))
          (\<lambda>_. res (Ok EmptyObject)))
       (\<lambda>err. res (Error (message err) None))"

text \<open>
  \<^verbatim>\<open>onUserLoaded\<close> starts \<^verbatim>\<open>createInitialAccount\<close> and does not await it; it has no
  responder.
\<close>

definition onUserLoaded ::
  "('s, 'p, 'v) account_controller \<Rightarrow> 'z has_source_scheme \<Rightarrow>
   (('s, 'p, 'r) world, unit) async" where
  "onUserLoaded c user =
     (let src = source user in
      start_call (CreateInitialAccount src) (createInitialAccount (accountService c) src))"

subsection \<open>Observing a run\<close>

text \<open>
  \<open>advance w s es\<close> is the world \<open>w\<close> after the store has become \<open>s\<close> and the events
  \<open>es\<close> have happened, in this order. \<open>events_of h w\<close> are the events the handler
  \<open>h\<close> adds when it runs in \<open>w\<close>.
\<close>

definition advance ::
  "('s, 'p, 'r) world \<Rightarrow> 's \<Rightarrow> ('p, 'r) event list \<Rightarrow> ('s, 'p, 'r) world" where
  "advance w s es = w\<lparr>store := s, trace := trace w @ es\<rparr>"

definition events_of ::
  "(('s, 'p, 'r) world, 'a) async \<Rightarrow> ('s, 'p, 'r) world \<Rightarrow> ('p, 'r) event list" where
  "events_of h w = drop (length (trace w)) (trace (snd (h w)))"

text \<open>
  The handler \<open>h\<close>, run in \<open>w\<close>, returns normally and has sent exactly one response, the
  error response with the message of \<open>e\<close> and the error name \<open>n\<close>.
\<close>

definition answers_error ::
  "(('s, 'p, 'r) world, unit) async \<Rightarrow> ('s, 'p, 'r) world \<Rightarrow> js_error \<Rightarrow> string option \<Rightarrow> bool"
  where
  "answers_error h w e n \<longleftrightarrow>
     fst (h w) = Inr () \<and> replies (events_of h w) = [Error (message e) n]"

subsection \<open>Services for concrete runs\<close>

text \<open>
  Services that settle every call the same way: with the error \<open>failure\<close> when there is
  one, leaving the store alone, and with the given value otherwise, after \<open>touch\<close> has
  changed the store.
\<close>

definition settle_with :: "js_error option \<Rightarrow> 'a \<Rightarrow> ('s \<Rightarrow> 's) \<Rightarrow> ('s, 'a) promise" where
  "settle_with failure x touch s =
     (case failure of Some e \<Rightarrow> (Inl e, s) | None \<Rightarrow> (Inr x, touch s))"

definition stub_auth :: "js_error option \<Rightarrow> 's auth_service" where
  "stub_auth failure = \<lparr>isAuthorizedAccount = (\<lambda>a src roles. settle_with failure () (\<lambda>s. s))\<rparr>"

definition stub_account_service ::
  "js_error option \<Rightarrow> 'v \<Rightarrow> int \<Rightarrow> ('s \<Rightarrow> 's) \<Rightarrow> ('s, 'p, 'v) account_service" where
  "stub_account_service failure v n touch =
     \<lparr>handleGetMyAccounts = (\<lambda>src. settle_with failure v touch),
      service_getTotalBankBalance = (\<lambda>src. settle_with failure n touch),
      handleCreateAccount = (\<lambda>req. settle_with failure v touch),
      handleDeleteAccount = (\<lambda>req. settle_with failure () touch),
      service_createAccount = (\<lambda>req. settle_with failure v touch),
      handleDepositMoney = (\<lambda>req. settle_with failure () touch),
      handleWithdrawMoney = (\<lambda>req. settle_with failure () touch),
      handleSetDefaultAccount = (\<lambda>req. settle_with failure () touch),
      handleRenameAccount = (\<lambda>req. settle_with failure () touch),
      addUserToShared = (\<lambda>req. settle_with failure () touch),
      removeUserFromShared = (\<lambda>req. settle_with failure () touch),
      getUsersFromShared = (\<lambda>req. settle_with failure v touch),
      addMoney = (\<lambda>req. settle_with failure () touch),
      removeMoney = (\<lambda>req. settle_with failure () touch),
      createInitialAccount = (\<lambda>src. settle_with failure v touch)\<rparr>"

definition stub_external_account_service ::
  "js_error option \<Rightarrow> 'v \<Rightarrow> ('s \<Rightarrow> 's) \<Rightarrow> ('s, 'p, 'v) external_account_service" where
  "stub_external_account_service failure v touch =
     \<lparr>handleAddAccount = (\<lambda>req. settle_with failure () touch),
      external_getAccounts = (\<lambda>req. settle_with failure v touch)\<rparr>"

definition stub_controller ::
  "js_error option \<Rightarrow> js_error option \<Rightarrow> 'v \<Rightarrow> int \<Rightarrow> ('s \<Rightarrow> 's) \<Rightarrow>
   ('s, 'p, 'v) account_controller" where
  "stub_controller auth_failure failure v n touch =
     \<lparr>auth = stub_auth auth_failure,
      accountService = stub_account_service failure v n touch,
      externalAccountService = stub_external_account_service failure v touch\<rparr>"

definition db_down :: js_error where
  "db_down = \<lparr>message = ''db down'', name = ''Error''\<rparr>"

definition forbidden :: js_error where
  "forbidden = \<lparr>message = ''forbidden'', name = ''ServerError''\<rparr>"

text \<open>A fresh world whose store counts the mutations the services have made.\<close>

definition fresh :: "(nat, unit, 'r) world" where
  "fresh = \<lparr>store = 0, trace = [], pending = []\<rparr>"

definition void_request :: "unit request" where
  "void_request = \<lparr>source = 7, data = ()\<rparr>"

definition account_request :: "int \<Rightarrow> account_id_input request" where
  "account_request src = \<lparr>source = src, data = \<lparr>accountId = 3\<rparr>\<rparr>"

definition atm_request :: "int option \<Rightarrow> atm_input request" where
  "atm_request a = \<lparr>source = 7, data = \<lparr>atm_accountId = a\<rparr>\<rparr>"

definition balance_request :: "balance_input request" where
  "balance_request = \<lparr>source = 7, data = \<lparr>amount = 50, balance_message = ''salary''\<rparr>\<rparr>"

section \<open>The collaborators, as the specification describes them\<close>

text \<open>
  Two claims speak of what a caller with a given role is granted, and one of what
  happens to a failed creation of the default account. The controller leaves both to
  services whose code is not part of the source under study. They are modelled here
  from the specification, on a store that holds the account and membership records.
\<close>

text \<open>
  Modelled from the spec: the records of section 3, whose declarations
  (\<^verbatim>\<open>@typings/Account\<close>) are not in the source. Of \<^verbatim>\<open>Account\<close> and
  \<^verbatim>\<open>SharedAccountUser\<close>, the fields that the two collaborators read or write.
\<close>

datatype account_kind = Personal | Shared

record account =
  account_id :: int
  ownerId :: int
  kind :: account_kind
  balance :: int
  isDefault :: bool

record shared_account_user =
  member_accountId :: int
  userId :: int
  role :: account_role

text \<open>Modelled from the spec: the error kinds of section 7.\<close>

datatype error_kind =
    AccountNotFound | Unauthorized | InvalidAmount | InsufficientFunds | AlreadyMember
  | NotMember | LastOwner | InvalidRole | StorageUnavailable | Conflict

text \<open>
  Modelled from the spec: the Ledger Store of sections 2 and 6, which the services
  (not in the source) work on: the records, whether storage can be reached, and the
  failures that have been logged. \<open>find_account\<close> and \<open>membership\<close> are its reads.
\<close>

record ledger =
  accounts :: "account list"
  members :: "shared_account_user list"
  available :: bool
  failure_log :: "js_error list"

definition find_account :: "int \<Rightarrow> 'z ledger_scheme \<Rightarrow> account option" where
  "find_account i l = find (\<lambda>a. account_id a = i) (accounts l)"

definition membership :: "int \<Rightarrow> int \<Rightarrow> 'z ledger_scheme \<Rightarrow> account_role option" where
  "membership i u l =
     map_option role (find (\<lambda>m. member_accountId m = i \<and> userId m = u) (members l))"

text \<open>
  Modelled from the spec: the role hierarchy of section 3, which \<^verbatim>\<open>AuthService\<close>
  (not in the source) applies. \<open>role_passes held required\<close>: Owner passes any check,
  Admin passes a check for Admin or Contributor, Contributor one for Contributor.
\<close>

fun role_passes :: "account_role \<Rightarrow> account_role \<Rightarrow> bool" where
  "role_passes Owner required = True"
| "role_passes Admin required = (required = Admin \<or> required = Contributor)"
| "role_passes Contributor required = (required = Contributor)"

text \<open>
  Modelled from the spec: the Role Registry of section 4.1, the contract of
  \<^verbatim>\<open>AuthService.isAuthorizedAccount\<close> (not in the source). It fails with NotFound
  (\<open>AccountNotFound\<close> in section 7) when the account does not exist; a Personal
  account authorizes by identity match with \<open>ownerId\<close> alone; on a Shared account the actor needs a membership whose role is in
  the required roles, the hierarchy expanded. It reads and decides, and changes
  nothing. The actor is the request's \<open>source\<close>: resolving a session to a user is
  outside.
\<close>

definition authorize ::
  "int \<Rightarrow> int \<Rightarrow> account_role list \<Rightarrow> 'z ledger_scheme \<Rightarrow> error_kind + unit" where
  "authorize i actor required l =
     (case find_account i l of
        None \<Rightarrow> Inl AccountNotFound
      | Some a \<Rightarrow>
          (case kind a of
             Personal \<Rightarrow> if ownerId a = actor then Inr () else Inl Unauthorized
           | Shared \<Rightarrow>
               (case membership i actor l of
                  None \<Rightarrow> Inl Unauthorized
                | Some r \<Rightarrow>
                    if list_ex (role_passes r) required then Inr () else Inl Unauthorized)))"

text \<open>
  Modelled from the spec: the registry as the controller's \<^verbatim>\<open>AuthService\<close> (not in
  the source). A failure is thrown as an error object; \<open>raise\<close> gives the object for
  each error kind, its message text is not fixed by the specification.
\<close>

definition role_registry :: "(error_kind \<Rightarrow> js_error) \<Rightarrow> 'z ledger_scheme auth_service" where
  "role_registry raise =
     \<lparr>isAuthorizedAccount = (\<lambda>i actor required l.
        (case authorize i actor required l of
           Inl k \<Rightarrow> (Inl (raise k), l)
         | Inr u \<Rightarrow> (Inr u, l)))\<rparr>"

text \<open>
  Modelled from the spec: an account id is a unique integer (section 3); a new account
  takes the next one above those in use.
\<close>

definition fresh_id :: "'z ledger_scheme \<Rightarrow> int" where
  "fresh_id l = 1 + fold max (map account_id (accounts l)) 0"

text \<open>
  Modelled from the spec: the Default Account Manager of section 4.2, the contract of
  \<^verbatim>\<open>AccountService.createInitialAccount\<close> (not in the source). It returns the user's
  default Personal account when there is one and creates it with balance 0 otherwise;
  when storage cannot be reached it fails with StorageUnavailable, and the failure is
  logged.
\<close>

definition ensureDefaultAccount ::
  "(error_kind \<Rightarrow> js_error) \<Rightarrow> int \<Rightarrow> ('z ledger_scheme, account) promise" where
  "ensureDefaultAccount raise u l =
     (if available l then
        (case find (\<lambda>a. ownerId a = u \<and> kind a = Personal \<and> isDefault a) (accounts l) of
           Some a \<Rightarrow> (Inr a, l)
         | None \<Rightarrow>
             (let a = \<lparr>account_id = fresh_id l, ownerId = u, kind = Personal, balance = 0,
                       isDefault = True\<rparr>
              in (Inr a, l\<lparr>accounts := accounts l @ [a]\<rparr>)))
      else (Inl (raise StorageUnavailable),
            l\<lparr>failure_log := failure_log l @ [raise StorageUnavailable]\<rparr>))"

text \<open>
  A controller on the ledger: the Role Registry as its \<^verbatim>\<open>AuthService\<close>, the Default
  Account Manager behind \<^verbatim>\<open>createInitialAccount\<close>, any services otherwise.
\<close>

definition with_role_registry ::
  "(error_kind \<Rightarrow> js_error) \<Rightarrow> ('z ledger_scheme, 'p, 'v) account_controller \<Rightarrow>
   ('z ledger_scheme, 'p, 'v) account_controller" where
  "with_role_registry raise c = c\<lparr>auth := role_registry raise\<rparr>"

definition with_default_account_manager ::
  "(error_kind \<Rightarrow> js_error) \<Rightarrow> ('z ledger_scheme, 'p, account) account_controller \<Rightarrow>
   ('z ledger_scheme, 'p, account) account_controller" where
  "with_default_account_manager raise c =
     c\<lparr>accountService := (accountService c)\<lparr>createInitialAccount := ensureDefaultAccount raise\<rparr>\<rparr>"

text \<open>
  A ledger for concrete runs: the shared account 3 owned by user 1, with user 7 a
  Contributor and user 8 an Admin; and the error object of each error kind.
\<close>

definition raise_kind :: "error_kind \<Rightarrow> js_error" where
  "raise_kind k =
     (case k of
        Unauthorized \<Rightarrow> \<lparr>message = ''Unauthorized'', name = ''AuthError''\<rparr>
      | AccountNotFound \<Rightarrow> \<lparr>message = ''Account not found'', name = ''AuthError''\<rparr>
      | StorageUnavailable \<Rightarrow> \<lparr>message = ''Storage unavailable'', name = ''StorageError''\<rparr>
      | _ \<Rightarrow> \<lparr>message = ''Failed'', name = ''Error''\<rparr>)"

definition family_ledger :: ledger where
  "family_ledger =
     \<lparr>accounts = [\<lparr>account_id = 3, ownerId = 1, kind = Shared, balance = 100, isDefault = False\<rparr>],
      members = [\<lparr>member_accountId = 3, userId = 1, role = Owner\<rparr>,
                 \<lparr>member_accountId = 3, userId = 7, role = Contributor\<rparr>,
                 \<lparr>member_accountId = 3, userId = 8, role = Admin\<rparr>],
      available = True,
      failure_log = []\<rparr>"

definition on_ledger :: "ledger \<Rightarrow> (ledger, unit, 'r) world" where
  "on_ledger l = \<lparr>store = l, trace = [], pending = []\<rparr>"

definition default_account :: account where
  "default_account =
     \<lparr>account_id = 1, ownerId = 7, kind = Personal, balance = 0, isDefault = True\<rparr>"

definition loaded_user :: has_source where
  "loaded_user = \<lparr>source = 7\<rparr>"

definition unreachable_world :: "(ledger, unit, empty_object) world" where
  "unreachable_world =
     \<lparr>store = family_ledger\<lparr>available := False\<rparr>, trace = [], pending = []\<rparr>"

section \<open>Properties\<close>

lemmas async_defs = try_catch_def and_then_def await_call_def res_def done_with_def
  console_error_def start_call_def auth_isAuthorizedAccount_def advance_def

lemmas stub_defs = stub_controller_def stub_auth_def stub_account_service_def
  stub_external_account_service_def settle_with_def fresh_def

lemma replies_append [simp]: "replies (xs @ ys) = replies xs @ replies ys"
  by (induction xs rule: replies.induct) simp_all

lemma calls_append [simp]: "calls (xs @ ys) = calls xs @ calls ys"
  by (induction xs rule: calls.induct) simp_all

lemma events_of_advance [simp]: "h w = (r, advance w s es) \<Longrightarrow> events_of h w = es"
  by (simp add: events_of_def advance_def)

subsection \<open>Handlers without a catch block\<close>

lemma getAccounts_rejects:
  assumes "handleGetMyAccounts (accountService c) (source req) (store w) = (Inl e, s')"
  shows "getAccounts c req w = (Inl e, advance w s' [Called (HandleGetMyAccounts (source req))])"
  using assms by (simp add: getAccounts_def async_defs)

lemma getAccounts_resolves:
  assumes "handleGetMyAccounts (accountService c) (source req) (store w) = (Inr x, s')"
  shows "getAccounts c req w =
           (Inr (), advance w s' [Called (HandleGetMyAccounts (source req)), Replied (Ok x)])"
  using assms by (simp add: getAccounts_def async_defs)

lemma getTotalBankBalance_rejects:
  assumes "service_getTotalBankBalance (accountService c) (source req) (store w) = (Inl e, s')"
  shows "getTotalBankBalance c req w =
           (Inl e, advance w s' [Called (GetTotalBankBalance (source req))])"
  using assms by (simp add: getTotalBankBalance_def async_defs)

lemma getTotalBankBalance_resolves:
  assumes "service_getTotalBankBalance (accountService c) (source req) (store w) = (Inr x, s')"
  shows "getTotalBankBalance c req w =
           (Inr (), advance w s' [Called (GetTotalBankBalance (source req)), Replied (Ok x)])"
  using assms by (simp add: getTotalBankBalance_def async_defs)

text \<open>
  C1. The claim: every public operation replies with a tagged result whatever the
  delegated call does, and no exception escapes the handler, in particular for
  \<^verbatim>\<open>getAccounts\<close> and \<^verbatim>\<open>getTotalBankBalance\<close>. These two handlers have no
  \<^verbatim>\<open>try\<close>/\<^verbatim>\<open>catch\<close>, unlike the fifteen other request handlers: when the account
  service rejects with \<^verbatim>\<open>Error('db down')\<close>, the handler's promise rejects with that
  error and \<^verbatim>\<open>res\<close> is never called.
\<close>

theorem getAccounts_getTotalBankBalance_rejection_escapes:
  "getAccounts (stub_controller None (Some db_down) [''savings''] 100 Suc) void_request fresh
     = (Inl db_down, \<lparr>store = 0, trace = [Called (HandleGetMyAccounts 7)], pending = []\<rparr>)
   \<and> getTotalBankBalance (stub_controller None (Some db_down) [''savings''] 100 Suc)
        void_request fresh
     = (Inl db_down, \<lparr>store = 0, trace = [Called (GetTotalBankBalance 7)], pending = []\<rparr>)"
  by (simp add: getAccounts_def getTotalBankBalance_def async_defs stub_defs void_request_def)

text \<open>
  The other request handlers wrap their body in \<^verbatim>\<open>try\<close>/\<^verbatim>\<open>catch\<close>: whatever the
  services do, they return normally and send exactly one response.
\<close>

lemma caught_handlers_always_reply:
  "fst (createAccount c req w) = Inr () \<and> length (replies (events_of (createAccount c req) w)) = 1"
  "fst (deleteAccount c areq wo) = Inr ()
     \<and> length (replies (events_of (deleteAccount c areq) wo)) = 1"
  "fst (exportCreateAccount c req w) = Inr ()
     \<and> length (replies (events_of (exportCreateAccount c req) w)) = 1"
  "fst (depositMoney c mreq wo) = Inr ()
     \<and> length (replies (events_of (depositMoney c mreq) wo)) = 1"
  "fst (withdrawMoney c mreq wo) = Inr ()
     \<and> length (replies (events_of (withdrawMoney c mreq) wo)) = 1"
  "fst (setDefaultAccount c areq wo) = Inr ()
     \<and> length (replies (events_of (setDefaultAccount c areq) wo)) = 1"
  "fst (renameAccount c areq wo) = Inr ()
     \<and> length (replies (events_of (renameAccount c areq) wo)) = 1"
  "fst (addSharedAccountUser c areq wo) = Inr ()
     \<and> length (replies (events_of (addSharedAccountUser c areq) wo)) = 1"
  "fst (removeSharedAccountUser c areq wo) = Inr ()
     \<and> length (replies (events_of (removeSharedAccountUser c areq) wo)) = 1"
  "fst (getUsersFromSharedAccount c areq w) = Inr ()
     \<and> length (replies (events_of (getUsersFromSharedAccount c areq) w)) = 1"
  "fst (addExternalAccount c req wo) = Inr ()
     \<and> length (replies (events_of (addExternalAccount c req) wo)) = 1"
  "fst (getExternalAccounts c vreq w) = Inr ()
     \<and> length (replies (events_of (getExternalAccounts c vreq) w)) = 1"
  "fst (addBankBalance c breq wo) = Inr ()
     \<and> length (replies (events_of (addBankBalance c breq) wo)) = 1"
  "fst (addBankBalanceByIdentifier c breq wo) = Inr ()
     \<and> length (replies (events_of (addBankBalanceByIdentifier c breq) wo)) = 1"
  "fst (removeBankBalance c breq wo) = Inr ()
     \<and> length (replies (events_of (removeBankBalance c breq) wo)) = 1"
  by (auto simp add: createAccount_def deleteAccount_def exportCreateAccount_def depositMoney_def
        withdrawMoney_def setDefaultAccount_def renameAccount_def addSharedAccountUser_def
        removeSharedAccountUser_def getUsersFromSharedAccount_def addExternalAccount_def
        getExternalAccounts_def addBankBalance_def addBankBalanceByIdentifier_def
        removeBankBalance_def async_defs events_of_def
        split: prod.splits sum.splits option.splits)

subsection \<open>Handlers that check a role first\<close>

text \<open>
  C3. Every \<^verbatim>\<open>deleteAccount\<close> request is first checked for the Owner role on the target
  account. When the check throws, \<^verbatim>\<open>handleDeleteAccount\<close> is not called, the store is
  as the check left it, and the response is the error response with the thrown
  error's message. When the check passes, the deletion is delegated next.
\<close>

theorem deleteAccount_owner_check_first:
  "(\<forall>e s1. isAuthorizedAccount (auth c) (accountId (data req)) (source req) [Owner] (store w)
             = (Inl e, s1) \<longrightarrow>
        deleteAccount c req w =
          (Inr (), advance w s1
             [Called (IsAuthorizedAccount (accountId (data req)) (source req) [Owner]),
              Replied (Error (message e) None)]))
   \<and> (\<forall>u s1. isAuthorizedAccount (auth c) (accountId (data req)) (source req) [Owner] (store w)
             = (Inr u, s1) \<longrightarrow>
        deleteAccount c req w =
          (case handleDeleteAccount (accountService c) req s1 of
             (Inl e, s2) \<Rightarrow>
               (Inr (), advance w s2
                  [Called (IsAuthorizedAccount (accountId (data req)) (source req) [Owner]),
                   Called (HandleDeleteAccount req), Replied (Error (message e) None)])
           | (Inr x, s2) \<Rightarrow>
               (Inr (), advance w s2
                  [Called (IsAuthorizedAccount (accountId (data req)) (source req) [Owner]),
                   Called (HandleDeleteAccount req), Replied (Ok EmptyObject)])))"
  by (simp add: deleteAccount_def async_defs split: prod.splits sum.splits)

theorem deleteAccount_owner_check_first_witness:
  "deleteAccount (stub_controller (Some forbidden) None [''savings''] 100 Suc)
       (account_request 7) fresh
     = (Inr (), \<lparr>store = 0,
                 trace = [Called (IsAuthorizedAccount 3 7 [Owner]),
                          Replied (Error ''forbidden'' None)],
                 pending = []\<rparr>)
   \<and> deleteAccount (stub_controller None None [''savings''] 100 Suc) (account_request 7) fresh
     = (Inr (), \<lparr>store = 1,
                 trace = [Called (IsAuthorizedAccount 3 7 [Owner]),
                          Called (HandleDeleteAccount (account_request 7)),
                          Replied (Ok EmptyObject)],
                 pending = []\<rparr>)"
  using deleteAccount_owner_check_first
          [of "stub_controller (Some forbidden) None [''savings''] 100 Suc"
              "account_request 7" fresh]
        deleteAccount_owner_check_first
          [of "stub_controller None None [''savings''] 100 Suc"
              "account_request 7" fresh]
  by (simp add: stub_defs advance_def account_request_def forbidden_def)

text \<open>
  C7. \<^verbatim>\<open>setDefaultAccount\<close> and \<^verbatim>\<open>renameAccount\<close> check the Admin role on the request's
  account first. When the check throws, the mutation is not attempted and the response
  has status error; when it passes, the mutation is called next.
\<close>

theorem setDefault_rename_admin_check_first:
  "(\<forall>e s1. isAuthorizedAccount (auth c) (accountId (data req)) (source req) [Admin] (store w)
             = (Inl e, s1) \<longrightarrow>
        setDefaultAccount c req w =
          (Inr (), advance w s1
             [Called (IsAuthorizedAccount (accountId (data req)) (source req) [Admin]),
              Replied (Error (message e) None)])
      \<and> renameAccount c req w =
          (Inr (), advance w s1
             [Called (IsAuthorizedAccount (accountId (data req)) (source req) [Admin]),
              Replied (Error (message e) None)])
      \<and> status (Error (message e) None) = StatusError)
   \<and> (\<forall>u s1. isAuthorizedAccount (auth c) (accountId (data req)) (source req) [Admin] (store w)
             = (Inr u, s1) \<longrightarrow>
        setDefaultAccount c req w =
          (case handleSetDefaultAccount (accountService c) req s1 of
             (Inl e, s2) \<Rightarrow>
               (Inr (), advance w s2
                  [Called (IsAuthorizedAccount (accountId (data req)) (source req) [Admin]),
                   Called (HandleSetDefaultAccount req), Replied (Error (message e) None)])
           | (Inr x, s2) \<Rightarrow>
               (Inr (), advance w s2
                  [Called (IsAuthorizedAccount (accountId (data req)) (source req) [Admin]),
                   Called (HandleSetDefaultAccount req), Replied (Ok EmptyObject)]))
      \<and> renameAccount c req w =
          (case handleRenameAccount (accountService c) req s1 of
             (Inl e, s2) \<Rightarrow>
               (Inr (), advance w s2
                  [Called (IsAuthorizedAccount (accountId (data req)) (source req) [Admin]),
                   Called (HandleRenameAccount req), Replied (Error (message e) None)])
           | (Inr x, s2) \<Rightarrow>
               (Inr (), advance w s2
                  [Called (IsAuthorizedAccount (accountId (data req)) (source req) [Admin]),
                   Called (HandleRenameAccount req), Replied (Ok EmptyObject)])))"
  by (simp add: setDefaultAccount_def renameAccount_def async_defs split: prod.splits sum.splits)

theorem setDefault_rename_admin_check_first_witness:
  "setDefaultAccount (stub_controller (Some forbidden) None [''savings''] 100 Suc)
       (account_request 7) fresh
     = (Inr (), \<lparr>store = 0,
                 trace = [Called (IsAuthorizedAccount 3 7 [Admin]),
                          Replied (Error ''forbidden'' None)],
                 pending = []\<rparr>)
   \<and> renameAccount (stub_controller None None [''savings''] 100 Suc) (account_request 7) fresh
     = (Inr (), \<lparr>store = 1,
                 trace = [Called (IsAuthorizedAccount 3 7 [Admin]),
                          Called (HandleRenameAccount (account_request 7)),
                          Replied (Ok EmptyObject)],
                 pending = []\<rparr>)"
  using setDefault_rename_admin_check_first
          [of "stub_controller (Some forbidden) None [''savings''] 100 Suc"
              "account_request 7" fresh]
        setDefault_rename_admin_check_first
          [of "stub_controller None None [''savings''] 100 Suc"
              "account_request 7" fresh]
  by (simp add: stub_defs advance_def account_request_def forbidden_def)

text \<open>
  C2, as claimed: every \<^verbatim>\<open>withdrawMoney\<close> request is checked for the Admin role before
  \<^verbatim>\<open>handleWithdrawMoney\<close> is called. The handler guards the check with
  \<^verbatim>\<open>accountId &&\<close>: for a request without \<^verbatim>\<open>accountId\<close>, or with \<^verbatim>\<open>accountId\<close> 0,
  no check is made. Below, the \<^verbatim>\<open>AuthService\<close> rejects every check, and the withdrawal
  is carried out and answered with status ok all the same.
\<close>

theorem withdrawMoney_unchecked_without_accountId:
  "withdrawMoney (stub_controller (Some forbidden) None [''savings''] 100 Suc)
       (atm_request None) fresh
     = (Inr (), \<lparr>store = 1,
                 trace = [Called (HandleWithdrawMoney (atm_request None)),
                          Replied (Ok EmptyObject)],
                 pending = []\<rparr>)
   \<and> withdrawMoney (stub_controller (Some forbidden) None [''savings''] 100 Suc)
       (atm_request (Some 0)) fresh
     = (Inr (), \<lparr>store = 1,
                 trace = [Called (HandleWithdrawMoney (atm_request (Some 0))),
                          Replied (Ok EmptyObject)],
                 pending = []\<rparr>)"
  by (simp add: withdrawMoney_def async_defs stub_defs atm_request_def)

text \<open>
  C2, amended. For a \<^verbatim>\<open>withdrawMoney\<close> request whose \<^verbatim>\<open>accountId\<close> is a number other
  than 0, the Admin role is checked on that account first: when the check throws,
  \<^verbatim>\<open>handleWithdrawMoney\<close> is not called, the error is written to the console and the
  response has status error; when it passes, the withdrawal is called next. For a
  request without \<^verbatim>\<open>accountId\<close>, or with \<^verbatim>\<open>accountId\<close> 0, the withdrawal is called
  at once, with no check.
\<close>

theorem withdrawMoney_admin_check_when_accountId:
  "(\<forall>a e s1. atm_accountId (data req) = Some a \<and> a \<noteq> 0
        \<and> isAuthorizedAccount (auth c) a (source req) [Admin] (store w) = (Inl e, s1) \<longrightarrow>
        withdrawMoney c req w =
          (Inr (), advance w s1
             [Called (IsAuthorizedAccount a (source req) [Admin]), ConsoleError e,
              Replied (Error (message e) None)])
        \<and> status (Error (message e) None) = StatusError)
   \<and> (\<forall>a u s1. atm_accountId (data req) = Some a \<and> a \<noteq> 0
        \<and> isAuthorizedAccount (auth c) a (source req) [Admin] (store w) = (Inr u, s1) \<longrightarrow>
        withdrawMoney c req w =
          (case handleWithdrawMoney (accountService c) req s1 of
             (Inl e, s2) \<Rightarrow>
               (Inr (), advance w s2
                  [Called (IsAuthorizedAccount a (source req) [Admin]),
                   Called (HandleWithdrawMoney req), ConsoleError e,
                   Replied (Error (message e) None)])
           | (Inr x, s2) \<Rightarrow>
               (Inr (), advance w s2
                  [Called (IsAuthorizedAccount a (source req) [Admin]),
                   Called (HandleWithdrawMoney req), Replied (Ok EmptyObject)])))
   \<and> (atm_accountId (data req) = None \<or> atm_accountId (data req) = Some 0 \<longrightarrow>
        withdrawMoney c req w =
          (case handleWithdrawMoney (accountService c) req (store w) of
             (Inl e, s2) \<Rightarrow>
               (Inr (), advance w s2
                  [Called (HandleWithdrawMoney req), ConsoleError e,
                   Replied (Error (message e) None)])
           | (Inr x, s2) \<Rightarrow>
               (Inr (), advance w s2
                  [Called (HandleWithdrawMoney req), Replied (Ok EmptyObject)])))"
  by (auto simp add: withdrawMoney_def async_defs split: prod.splits sum.splits)

theorem withdrawMoney_admin_check_when_accountId_witness:
  "withdrawMoney (stub_controller (Some forbidden) None [''savings''] 100 Suc)
       (atm_request (Some 3)) fresh
     = (Inr (), \<lparr>store = 0,
                 trace = [Called (IsAuthorizedAccount 3 7 [Admin]), ConsoleError forbidden,
                          Replied (Error ''forbidden'' None)],
                 pending = []\<rparr>)
   \<and> withdrawMoney (stub_controller None None [''savings''] 100 Suc) (atm_request (Some 3)) fresh
     = (Inr (), \<lparr>store = 1,
                 trace = [Called (IsAuthorizedAccount 3 7 [Admin]),
                          Called (HandleWithdrawMoney (atm_request (Some 3))),
                          Replied (Ok EmptyObject)],
                 pending = []\<rparr>)
   \<and> withdrawMoney (stub_controller None (Some db_down) [''savings''] 100 Suc)
       (atm_request None) fresh
     = (Inr (), \<lparr>store = 0,
                 trace = [Called (HandleWithdrawMoney (atm_request None)), ConsoleError db_down,
                          Replied (Error ''db down'' None)],
                 pending = []\<rparr>)"
  using withdrawMoney_admin_check_when_accountId
          [of "atm_request (Some 3)" "stub_controller (Some forbidden) None [''savings''] 100 Suc"
              fresh]
        withdrawMoney_admin_check_when_accountId
          [of "atm_request (Some 3)" "stub_controller None None [''savings''] 100 Suc" fresh]
        withdrawMoney_admin_check_when_accountId
          [of "atm_request None" "stub_controller None (Some db_down) [''savings''] 100 Suc"
              fresh]
  by (simp add: stub_defs advance_def atm_request_def forbidden_def db_down_def)

subsection \<open>What the roles grant\<close>

lemma authorize_contributor_not_admin:
  assumes "find_account i l = Some a" and "kind a = Shared"
    and "membership i actor l = Some Contributor"
  shows "authorize i actor [Admin] l = Inl Unauthorized"
  using assms by (simp add: authorize_def)

lemma authorize_admin_or_contributor:
  assumes "find_account i l = Some a" and "kind a = Shared"
    and "membership i actor l = Some r" and "r = Admin \<or> r = Contributor"
  shows "authorize i actor [Admin, Contributor] l = Inr ()"
  using assms by (auto simp add: authorize_def)

text \<open>
  C4. \<^verbatim>\<open>addSharedAccountUser\<close> and \<^verbatim>\<open>removeSharedAccountUser\<close> check the role list
  \<^verbatim>\<open>[Admin]\<close>, and nothing else, before the membership change is delegated: when the
  check throws, the change is not attempted. With the Role Registry of the
  specification as \<^verbatim>\<open>AuthService\<close>, a caller whose membership of the shared account is
  Contributor gets the Unauthorized failure as response, by both handlers, and the
  store is left as it was.
\<close>

theorem shared_member_change_needs_admin:
  "(\<forall>e s1. isAuthorizedAccount (auth c) (accountId (data req)) (source req) [Admin] (store w)
             = (Inl e, s1) \<longrightarrow>
        addSharedAccountUser c req w =
          (Inr (), advance w s1
             [Called (IsAuthorizedAccount (accountId (data req)) (source req) [Admin]),
              Replied (Error (message e) None)])
      \<and> removeSharedAccountUser c req w =
          (Inr (), advance w s1
             [Called (IsAuthorizedAccount (accountId (data req)) (source req) [Admin]),
              Replied (Error (message e) None)]))
   \<and> (\<forall>u s1. isAuthorizedAccount (auth c) (accountId (data req)) (source req) [Admin] (store w)
             = (Inr u, s1) \<longrightarrow>
        addSharedAccountUser c req w =
          (case addUserToShared (accountService c) req s1 of
             (Inl e, s2) \<Rightarrow>
               (Inr (), advance w s2
                  [Called (IsAuthorizedAccount (accountId (data req)) (source req) [Admin]),
                   Called (AddUserToShared req), Replied (Error (message e) None)])
           | (Inr x, s2) \<Rightarrow>
               (Inr (), advance w s2
                  [Called (IsAuthorizedAccount (accountId (data req)) (source req) [Admin]),
                   Called (AddUserToShared req), Replied (Ok EmptyObject)]))
      \<and> removeSharedAccountUser c req w =
          (case removeUserFromShared (accountService c) req s1 of
             (Inl e, s2) \<Rightarrow>
               (Inr (), advance w s2
                  [Called (IsAuthorizedAccount (accountId (data req)) (source req) [Admin]),
                   Called (RemoveUserFromShared req), Replied (Error (message e) None)])
           | (Inr x, s2) \<Rightarrow>
               (Inr (), advance w s2
                  [Called (IsAuthorizedAccount (accountId (data req)) (source req) [Admin]),
                   Called (RemoveUserFromShared req), Replied (Ok EmptyObject)])))
   \<and> (\<forall>acc. find_account (accountId (data lreq)) (store lw) = Some acc \<and> kind acc = Shared
        \<and> membership (accountId (data lreq)) (source lreq) (store lw) = Some Contributor \<longrightarrow>
        addSharedAccountUser (with_role_registry raise lc) lreq lw =
          (Inr (), advance lw (store lw)
             [Called (IsAuthorizedAccount (accountId (data lreq)) (source lreq) [Admin]),
              Replied (Error (message (raise Unauthorized)) None)])
      \<and> removeSharedAccountUser (with_role_registry raise lc) lreq lw =
          (Inr (), advance lw (store lw)
             [Called (IsAuthorizedAccount (accountId (data lreq)) (source lreq) [Admin]),
              Replied (Error (message (raise Unauthorized)) None)]))"
proof (intro conjI allI impI)
  fix acc
  assume h: "find_account (accountId (data lreq)) (store lw) = Some acc \<and> kind acc = Shared
        \<and> membership (accountId (data lreq)) (source lreq) (store lw) = Some Contributor"
  then have "authorize (accountId (data lreq)) (source lreq) [Admin] (store lw) = Inl Unauthorized"
    by (simp add: authorize_contributor_not_admin)
  then have r: "isAuthorizedAccount (auth (with_role_registry raise lc)) (accountId (data lreq))
             (source lreq) [Admin] (store lw) = (Inl (raise Unauthorized), store lw)"
    by (simp add: with_role_registry_def role_registry_def)
  show "addSharedAccountUser (with_role_registry raise lc) lreq lw =
          (Inr (), advance lw (store lw)
             [Called (IsAuthorizedAccount (accountId (data lreq)) (source lreq) [Admin]),
              Replied (Error (message (raise Unauthorized)) None)])"
    using r by (simp add: addSharedAccountUser_def async_defs)
  show "removeSharedAccountUser (with_role_registry raise lc) lreq lw =
          (Inr (), advance lw (store lw)
             [Called (IsAuthorizedAccount (accountId (data lreq)) (source lreq) [Admin]),
              Replied (Error (message (raise Unauthorized)) None)])"
    using r by (simp add: removeSharedAccountUser_def async_defs)
qed (simp_all add: addSharedAccountUser_def removeSharedAccountUser_def async_defs
       split: prod.splits sum.splits)

theorem shared_member_change_needs_admin_witness:
  "removeSharedAccountUser
       (with_role_registry raise_kind
          (stub_controller None None [''members''] 100 (\<lambda>l. l\<lparr>members := []\<rparr>)))
       (account_request 7) (on_ledger family_ledger)
     = (Inr (), \<lparr>store = family_ledger,
                 trace = [Called (IsAuthorizedAccount 3 7 [Admin]),
                          Replied (Error ''Unauthorized'' None)],
                 pending = []\<rparr>)
   \<and> addSharedAccountUser
       (with_role_registry raise_kind
          (stub_controller None None [''members''] 100 (\<lambda>l. l\<lparr>members := []\<rparr>)))
       (account_request 8) (on_ledger family_ledger)
     = (Inr (), \<lparr>store = family_ledger\<lparr>members := []\<rparr>,
                 trace = [Called (IsAuthorizedAccount 3 8 [Admin]),
                          Called (AddUserToShared (account_request 8)),
                          Replied (Ok EmptyObject)],
                 pending = []\<rparr>)"
  using shared_member_change_needs_admin
          [of "with_role_registry raise_kind
                 (stub_controller None None [''members''] 100 (\<lambda>l. l\<lparr>members := []\<rparr>))"
              "account_request 8" "on_ledger family_ledger"
              "account_request 7" "on_ledger family_ledger" raise_kind
              "stub_controller None None [''members''] 100 (\<lambda>l. l\<lparr>members := []\<rparr>)"]
  by (simp add: stub_defs advance_def account_request_def on_ledger_def family_ledger_def
        raise_kind_def with_role_registry_def role_registry_def authorize_def find_account_def
        membership_def)

text \<open>
  C5. \<^verbatim>\<open>getUsersFromSharedAccount\<close> checks the role list \<^verbatim>\<open>[Admin, Contributor]\<close>
  before the member list is fetched: when the check throws, the fetch is not made and
  the one response is the error response, without member data; when it passes, the
  list the service resolves with is the payload of the response. With the Role
  Registry of the specification as \<^verbatim>\<open>AuthService\<close>, a caller whose membership of the
  shared account is Admin or Contributor passes the check.
\<close>

theorem shared_member_list_needs_admin_or_contributor:
  "(\<forall>e s1. isAuthorizedAccount (auth c) (accountId (data req)) (source req)
              [Admin, Contributor] (store w) = (Inl e, s1) \<longrightarrow>
        getUsersFromSharedAccount c req w =
          (Inr (), advance w s1
             [Called (IsAuthorizedAccount (accountId (data req)) (source req)
                [Admin, Contributor]),
              Replied (Error (message e) None)]))
   \<and> (\<forall>u s1. isAuthorizedAccount (auth c) (accountId (data req)) (source req)
              [Admin, Contributor] (store w) = (Inr u, s1) \<longrightarrow>
        getUsersFromSharedAccount c req w =
          (case getUsersFromShared (accountService c) req s1 of
             (Inl e, s2) \<Rightarrow>
               (Inr (), advance w s2
                  [Called (IsAuthorizedAccount (accountId (data req)) (source req)
                     [Admin, Contributor]),
                   Called (GetUsersFromShared req), Replied (Error (message e) None)])
           | (Inr users, s2) \<Rightarrow>
               (Inr (), advance w s2
                  [Called (IsAuthorizedAccount (accountId (data req)) (source req)
                     [Admin, Contributor]),
                   Called (GetUsersFromShared req), Replied (Ok users)])))
   \<and> (\<forall>acc r users s2. find_account (accountId (data lreq)) (store lw) = Some acc
        \<and> kind acc = Shared
        \<and> membership (accountId (data lreq)) (source lreq) (store lw) = Some r
        \<and> (r = Admin \<or> r = Contributor)
        \<and> getUsersFromShared (accountService lc) lreq (store lw) = (Inr users, s2) \<longrightarrow>
        getUsersFromSharedAccount (with_role_registry raise lc) lreq lw =
          (Inr (), advance lw s2
             [Called (IsAuthorizedAccount (accountId (data lreq)) (source lreq)
                [Admin, Contributor]),
              Called (GetUsersFromShared lreq), Replied (Ok users)]))"
proof (intro conjI allI impI)
  fix acc r users s2
  assume h: "find_account (accountId (data lreq)) (store lw) = Some acc
        \<and> kind acc = Shared
        \<and> membership (accountId (data lreq)) (source lreq) (store lw) = Some r
        \<and> (r = Admin \<or> r = Contributor)
        \<and> getUsersFromShared (accountService lc) lreq (store lw) = (Inr users, s2)"
  then have "authorize (accountId (data lreq)) (source lreq) [Admin, Contributor] (store lw)
             = Inr ()"
    using authorize_admin_or_contributor [of "accountId (data lreq)" "store lw" acc "source lreq" r]
    by blast
  then have "isAuthorizedAccount (auth (with_role_registry raise lc)) (accountId (data lreq))
             (source lreq) [Admin, Contributor] (store lw) = (Inr (), store lw)"
    by (simp add: with_role_registry_def role_registry_def)
  moreover have "getUsersFromShared (accountService (with_role_registry raise lc)) lreq (store lw)
             = (Inr users, s2)"
    using h by (simp add: with_role_registry_def)
  ultimately show "getUsersFromSharedAccount (with_role_registry raise lc) lreq lw =
          (Inr (), advance lw s2
             [Called (IsAuthorizedAccount (accountId (data lreq)) (source lreq)
                [Admin, Contributor]),
              Called (GetUsersFromShared lreq), Replied (Ok users)])"
    by (simp add: getUsersFromSharedAccount_def async_defs)
qed (simp_all add: getUsersFromSharedAccount_def async_defs split: prod.splits sum.splits)

theorem shared_member_list_needs_admin_or_contributor_witness:
  "getUsersFromSharedAccount
       (with_role_registry raise_kind (stub_controller None None [''members''] 100 (\<lambda>l. l)))
       (account_request 7) (on_ledger family_ledger)
     = (Inr (), \<lparr>store = family_ledger,
                 trace = [Called (IsAuthorizedAccount 3 7 [Admin, Contributor]),
                          Called (GetUsersFromShared (account_request 7)),
                          Replied (Ok [''members''])],
                 pending = []\<rparr>)
   \<and> getUsersFromSharedAccount
       (with_role_registry raise_kind (stub_controller None None [''members''] 100 (\<lambda>l. l)))
       (account_request 8) (on_ledger family_ledger)
     = (Inr (), \<lparr>store = family_ledger,
                 trace = [Called (IsAuthorizedAccount 3 8 [Admin, Contributor]),
                          Called (GetUsersFromShared (account_request 8)),
                          Replied (Ok [''members''])],
                 pending = []\<rparr>)
   \<and> getUsersFromSharedAccount
       (with_role_registry raise_kind (stub_controller None None [''members''] 100 (\<lambda>l. l)))
       (account_request 9) (on_ledger family_ledger)
     = (Inr (), \<lparr>store = family_ledger,
                 trace = [Called (IsAuthorizedAccount 3 9 [Admin, Contributor]),
                          Replied (Error ''Unauthorized'' None)],
                 pending = []\<rparr>)"
  using shared_member_list_needs_admin_or_contributor
          [of "with_role_registry raise_kind
                 (stub_controller None None [''members''] 100 (\<lambda>l. l))"
              "account_request 9" "on_ledger family_ledger"
              "account_request 7" "on_ledger family_ledger"
              "stub_controller None None [''members''] 100 (\<lambda>l. l)" raise_kind]
        shared_member_list_needs_admin_or_contributor
          [of "with_role_registry raise_kind
                 (stub_controller None None [''members''] 100 (\<lambda>l. l))"
              "account_request 9" "on_ledger family_ledger"
              "account_request 8" "on_ledger family_ledger"
              "stub_controller None None [''members''] 100 (\<lambda>l. l)" raise_kind]
  by (simp add: stub_defs advance_def account_request_def on_ledger_def family_ledger_def
        raise_kind_def with_role_registry_def role_registry_def authorize_def find_account_def
        membership_def)

subsection \<open>Handlers that check no role\<close>

text \<open>
  C6. \<^verbatim>\<open>depositMoney\<close> makes no authorization check: its one service call is
  \<^verbatim>\<open>handleDepositMoney\<close> with the request, whatever the \<^verbatim>\<open>AuthService\<close> would say of
  the caller, and it fails exactly when that call throws, with the thrown message.
\<close>

theorem depositMoney_no_role_check:
  "depositMoney c req w =
     (case handleDepositMoney (accountService c) req (store w) of
        (Inl e, s') \<Rightarrow>
          (Inr (), advance w s' [Called (HandleDepositMoney req), Replied (Error (message e) None)])
      | (Inr x, s') \<Rightarrow>
          (Inr (), advance w s' [Called (HandleDepositMoney req), Replied (Ok EmptyObject)]))
   \<and> calls (events_of (depositMoney c req) w) = [HandleDepositMoney req]
   \<and> depositMoney (c\<lparr>auth := a\<rparr>) req w = depositMoney c req w"
  by (simp add: depositMoney_def async_defs events_of_def split: prod.splits sum.splits)

text \<open>
  C10. \<^verbatim>\<open>addBankBalance\<close> and \<^verbatim>\<open>addBankBalanceByIdentifier\<close> behave alike on every
  request: both call \<^verbatim>\<open>addMoney\<close> with the request as it came, answer status ok with
  the empty payload when it resolves, and status error with the thrown message when
  it throws.
\<close>

theorem addBankBalance_same_as_byIdentifier:
  "addBankBalance c req w = addBankBalanceByIdentifier c req w
   \<and> addBankBalance c req w =
     (case addMoney (accountService c) req (store w) of
        (Inl e, s') \<Rightarrow>
          (Inr (), advance w s' [Called (AddMoney req), Replied (Error (message e) None)])
      | (Inr x, s') \<Rightarrow>
          (Inr (), advance w s' [Called (AddMoney req), Replied (Ok EmptyObject)]))"
  by (simp add: addBankBalance_def addBankBalanceByIdentifier_def async_defs
           split: prod.splits sum.splits)

subsection \<open>The user-loaded event\<close>

text \<open>
  C8. On a user-loaded event the controller starts the creation of the initial account
  and does not await it: the handler returns normally at once, whatever the creation
  will do, it sends no response, and the creation is left pending. With the Default
  Account Manager of the specification behind \<^verbatim>\<open>createInitialAccount\<close>, a creation
  that fails because storage cannot be reached is logged when the pending call runs,
  and still nothing is sent to the caller.
\<close>

theorem onUserLoaded_fire_and_forget:
  "onUserLoaded c user w =
     (Inr (), w\<lparr>trace := trace w @ [Called (CreateInitialAccount (source user))],
                pending := pending w @ [detach (createInitialAccount (accountService c)
                                                   (source user))]\<rparr>)
   \<and> replies (events_of (onUserLoaded c user) w) = []
   \<and> (\<not> available (store lw) \<and> pending lw = [] \<longrightarrow>
        fst (onUserLoaded (with_default_account_manager raise lc) user lw) = Inr ()
        \<and> failure_log (store (settle (snd
             (onUserLoaded (with_default_account_manager raise lc) user lw))))
           = failure_log (store lw) @ [raise StorageUnavailable]
        \<and> accounts (store (settle (snd
             (onUserLoaded (with_default_account_manager raise lc) user lw))))
           = accounts (store lw)
        \<and> replies (trace (settle (snd
             (onUserLoaded (with_default_account_manager raise lc) user lw))))
           = replies (trace lw))"
  by (simp add: onUserLoaded_def Let_def async_defs events_of_def settle_def detach_def
        with_default_account_manager_def ensureDefaultAccount_def)

theorem onUserLoaded_fire_and_forget_witness:
  "fst (onUserLoaded
          (with_default_account_manager raise_kind
             (stub_controller None None default_account 100 (\<lambda>l. l)))
          loaded_user unreachable_world) = Inr ()
   \<and> failure_log (store (settle (snd
        (onUserLoaded
           (with_default_account_manager raise_kind
              (stub_controller None None default_account 100 (\<lambda>l. l)))
           loaded_user unreachable_world))))
      = [\<lparr>message = ''Storage unavailable'', name = ''StorageError''\<rparr>]
   \<and> replies (trace (settle (snd
        (onUserLoaded
           (with_default_account_manager raise_kind
              (stub_controller None None default_account 100 (\<lambda>l. l)))
           loaded_user unreachable_world))))
      = []"
  using onUserLoaded_fire_and_forget
          [of "with_default_account_manager raise_kind
                 (stub_controller None None default_account 100 (\<lambda>l. l))"
              loaded_user unreachable_world unreachable_world raise_kind
              "stub_controller None None default_account 100 (\<lambda>l. l)",
           THEN conjunct2, THEN conjunct2]
  by (simp add: unreachable_world_def family_ledger_def raise_kind_def)

subsection \<open>The catch blocks\<close>

text \<open>
  C9. In every handler with a \<^verbatim>\<open>try\<close>/\<^verbatim>\<open>catch\<close>, whenever a delegated call (the role
  check or the service call) throws \<open>e\<close>, the handler returns normally and its one
  response is the error response with \<^verbatim>\<open>errorMsg\<close> the message of \<open>e\<close>; no
  \<^verbatim>\<open>errorName\<close> is sent, except by \<^verbatim>\<open>getExternalAccounts\<close>, which sends the name of
  \<open>e\<close>. The handlers in the order of the source; \<open>req\<close> is a request with an opaque
  payload, \<open>areq\<close> one with an \<^verbatim>\<open>accountId\<close>, \<open>mreq\<close> an \<^verbatim>\<open>ATMInput\<close> request,
  \<open>breq\<close> one with an amount and \<open>vreq\<close> one without payload.
\<close>

theorem catch_replies_with_message:
  "(handleCreateAccount (accountService c) req (store w) = (Inl e, s1) \<longrightarrow>
      answers_error (createAccount c req) w e None)
   \<and> (isAuthorizedAccount (auth c) (accountId (data areq)) (source areq) [Owner] (store wo)
         = (Inl e, s1) \<longrightarrow>
      answers_error (deleteAccount c areq) wo e None)
   \<and> (isAuthorizedAccount (auth c) (accountId (data areq)) (source areq) [Owner] (store wo)
         = (Inr u, s1) \<and> handleDeleteAccount (accountService c) areq s1 = (Inl e, s2) \<longrightarrow>
      answers_error (deleteAccount c areq) wo e None)
   \<and> (service_createAccount (accountService c) req (store w) = (Inl e, s1) \<longrightarrow>
      answers_error (exportCreateAccount c req) w e None)
   \<and> (handleDepositMoney (accountService c) mreq (store wo) = (Inl e, s1) \<longrightarrow>
      answers_error (depositMoney c mreq) wo e None)
   \<and> (atm_accountId (data mreq) = Some a \<and> a \<noteq> 0
        \<and> isAuthorizedAccount (auth c) a (source mreq) [Admin] (store wo) = (Inl e, s1) \<longrightarrow>
      answers_error (withdrawMoney c mreq) wo e None)
   \<and> (atm_accountId (data mreq) = Some a \<and> a \<noteq> 0
        \<and> isAuthorizedAccount (auth c) a (source mreq) [Admin] (store wo) = (Inr u, s1)
        \<and> handleWithdrawMoney (accountService c) mreq s1 = (Inl e, s2) \<longrightarrow>
      answers_error (withdrawMoney c mreq) wo e None)
   \<and> ((atm_accountId (data mreq) = None \<or> atm_accountId (data mreq) = Some 0)
        \<and> handleWithdrawMoney (accountService c) mreq (store wo) = (Inl e, s1) \<longrightarrow>
      answers_error (withdrawMoney c mreq) wo e None)
   \<and> (isAuthorizedAccount (auth c) (accountId (data areq)) (source areq) [Admin] (store wo)
         = (Inl e, s1) \<longrightarrow>
      answers_error (setDefaultAccount c areq) wo e None
      \<and> answers_error (renameAccount c areq) wo e None
      \<and> answers_error (addSharedAccountUser c areq) wo e None
      \<and> answers_error (removeSharedAccountUser c areq) wo e None)
   \<and> (isAuthorizedAccount (auth c) (accountId (data areq)) (source areq) [Admin] (store wo)
         = (Inr u, s1) \<longrightarrow>
      (handleSetDefaultAccount (accountService c) areq s1 = (Inl e, s2) \<longrightarrow>
         answers_error (setDefaultAccount c areq) wo e None)
      \<and> (handleRenameAccount (accountService c) areq s1 = (Inl e, s2) \<longrightarrow>
         answers_error (renameAccount c areq) wo e None)
      \<and> (addUserToShared (accountService c) areq s1 = (Inl e, s2) \<longrightarrow>
         answers_error (addSharedAccountUser c areq) wo e None)
      \<and> (removeUserFromShared (accountService c) areq s1 = (Inl e, s2) \<longrightarrow>
         answers_error (removeSharedAccountUser c areq) wo e None))
   \<and> (isAuthorizedAccount (auth c) (accountId (data areq)) (source areq) [Admin, Contributor]
         (store w) = (Inl e, s1) \<longrightarrow>
      answers_error (getUsersFromSharedAccount c areq) w e None)
   \<and> (isAuthorizedAccount (auth c) (accountId (data areq)) (source areq) [Admin, Contributor]
         (store w) = (Inr u, s1)
        \<and> getUsersFromShared (accountService c) areq s1 = (Inl e, s2) \<longrightarrow>
      answers_error (getUsersFromSharedAccount c areq) w e None)
   \<and> (handleAddAccount (externalAccountService c) req (store wo) = (Inl e, s1) \<longrightarrow>
      answers_error (addExternalAccount c req) wo e None)
   \<and> (external_getAccounts (externalAccountService c) vreq (store w) = (Inl e, s1) \<longrightarrow>
      answers_error (getExternalAccounts c vreq) w e (Some (name e)))
   \<and> (addMoney (accountService c) breq (store wo) = (Inl e, s1) \<longrightarrow>
      answers_error (addBankBalance c breq) wo e None
      \<and> answers_error (addBankBalanceByIdentifier c breq) wo e None)
   \<and> (removeMoney (accountService c) breq (store wo) = (Inl e, s1) \<longrightarrow>
      answers_error (removeBankBalance c breq) wo e None)"
  unfolding answers_error_def events_of_def
  by (auto simp add: createAccount_def deleteAccount_def exportCreateAccount_def depositMoney_def
        withdrawMoney_def setDefaultAccount_def renameAccount_def addSharedAccountUser_def
        removeSharedAccountUser_def getUsersFromSharedAccount_def addExternalAccount_def
        getExternalAccounts_def addBankBalance_def addBankBalanceByIdentifier_def
        removeBankBalance_def async_defs)

theorem catch_replies_with_message_witness:
  "answers_error
     (createAccount (stub_controller None (Some db_down) [''savings''] 100 Suc) void_request)
     fresh db_down None
   \<and> answers_error
     (deleteAccount (stub_controller None (Some db_down) [''savings''] 100 Suc)
        (account_request 7))
     fresh db_down None
   \<and> answers_error
     (removeSharedAccountUser (stub_controller (Some forbidden) None [''savings''] 100 Suc)
        (account_request 7))
     fresh forbidden None
   \<and> answers_error
     (getExternalAccounts (stub_controller None (Some db_down) [''savings''] 100 Suc) void_request)
     fresh db_down (Some ''Error'')"
  using catch_replies_with_message
          [of "stub_controller None (Some db_down) [''savings''] 100 Suc" void_request fresh
              db_down 0 "account_request 7" fresh "()" 0 "atm_request None" 3 void_request
              balance_request]
        catch_replies_with_message
          [of "stub_controller (Some forbidden) None [''savings''] 100 Suc" void_request fresh
              forbidden 0 "account_request 7" fresh "()" 0 "atm_request None" 3 void_request
              balance_request]
  by (simp add: stub_defs db_down_def forbidden_def)

end
